theory Spec2Isabelle
  imports Main
begin

section \<open>Data model\<close>

text \<open>
  The chat client keeps its whole model in React state: the list of chats, the list of
  known users, the selected chat and the current user. Every socket event handler and
  every user action replaces that state. The handlers are embedded here as functions from
  state to state; what they send to the server is appended to the field \<open>emitted\<close>, in
  the order of the source text. Toast notifications and console output do not touch the
  state and are left out.

  The records follow the declarations of \<open>User\<close>, \<open>Message\<close> and \<open>Chat\<close>. Optional
  fields (\<open>avatarUrl\<close>, \<open>status\<close>, \<open>error\<close>, \<open>lastMessage\<close>, \<open>unreadCount\<close>, \<open>name\<close>) are
  options, with \<open>None\<close> for \<open>undefined\<close>. The lists \<open>messages\<close> and \<open>participants\<close> are
  declared as arrays, so the guards \<open>chat.messages || []\<close> and \<open>chat.participants || []\<close>
  are the identity. A time stamp is the number of milliseconds \<open>getTime()\<close> returns.
\<close>

record user =
  user_id :: string
  user_name :: string
  avatarUrl :: "string option"
  isOnline :: bool

datatype message_type = TextMsg | ImageMsg | VideoMsg | CallStart | CallEnd

text \<open>The status of a message, \<open>status?: 'sent' | 'delivered' | 'read'\<close>.\<close>

datatype message_status = Sent | Delivered | Read

record message =
  msg_id :: string
  sender :: user
  content :: string
  timestamp :: int
  mtype :: message_type
  status :: "message_status option"
  error :: "string option"

record chat =
  chat_id :: string
  isGroup :: bool
  chat_name :: "string option"
  participants :: "user list"
  messages :: "message list"
  lastMessage :: "message option"
  unreadCount :: "int option"

datatype view_mode = ChatsView | UsersView

text \<open>The events the client sends to the server (\<open>socket.emit\<close>):
  \<open>request_initial_data\<close>; \<open>mark_as_read\<close> with the chat id and the user id;
  \<open>send_message\<close>, \<open>start_call\<close> and \<open>end_call\<close> with the chat id and the message;
  \<open>start_direct_chat\<close> with the two user ids; \<open>create_group\<close> with the name and the
  ids of the participants.\<close>

datatype client_event =
    RequestInitialData
  | MarkAsRead string string
  | SendMessage string message
  | EmitStartCall string message
  | EmitEndCall string message
  | EmitStartDirectChat string string
  | EmitCreateGroup string "string list"

text \<open>
  The socket listeners are closures: they read \<open>selectedChatId\<close> and \<open>currentUser\<close> as
  these were in the render whose effect installed them, not as they are when an event
  arrives. A \<open>closure\<close> holds the two values. The field \<open>listeners\<close> of the state is
  \<open>None\<close> when no listener is attached to the socket and holds the closure of the
  attached listeners otherwise; \<open>socket\<close> tells whether \<open>socketRef.current\<close> is set.

  The effect that installs the listeners depends on the identity of the object
  \<open>currentUser\<close>, not on its fields. The field \<open>userObject\<close> stands for that identity:
  \<open>0\<close> is the object \<open>initialUser\<close> the component received from its parent, and every
  copy made with \<open>{...prev, isOnline: ...}\<close> gets the next number.
\<close>

record closure =
  cl_selectedChatId :: "string option"
  cl_currentUser :: "user option"

record app_state =
  currentUser :: "user option"
  userObject :: nat
  chats :: "chat list"
  selectedChatId :: "string option"
  availableUsers :: "user list"
  view :: view_mode
  isLoadingData :: bool
  isNewGroupModalOpen :: bool
  socket :: bool
  listeners :: "closure option"
  emitted :: "client_event list"

text \<open>Payloads of the server's replies.\<close>

record initial_data =
  d_chats :: "chat list"
  d_onlineUsers :: "string \<rightharpoonup> string"
  d_allUsers :: "user list"

record send_ack =
  ack_success :: bool
  ack_messageId :: "string option"
  ack_error :: "string option"

record group_ack =
  g_success :: bool
  g_newChat :: "chat option"
  g_error :: "string option"

section \<open>Helpers of the JavaScript runtime\<close>

text \<open>\<open>Array.prototype.findIndex\<close>: the index of the first element that satisfies the
  predicate; \<open>-1\<close> is \<open>None\<close>.\<close>

fun findIndex :: "('a \<Rightarrow> bool) \<Rightarrow> 'a list \<Rightarrow> nat option" where
  "findIndex P [] = None"
| "findIndex P (x # xs) = (if P x then Some 0 else map_option Suc (findIndex P xs))"

text \<open>Truthiness of an optional string: \<open>undefined\<close>, \<open>null\<close> and \<open>""\<close> are falsy.\<close>

fun truthy :: "string option \<Rightarrow> bool" where
  "truthy None = False"
| "truthy (Some v) = (v \<noteq> [])"

text \<open>\<open>a || b\<close> on an optional string with a string default.\<close>

fun or_else :: "string option \<Rightarrow> string \<Rightarrow> string" where
  "or_else None d = d"
| "or_else (Some v) d = (if v = [] then d else v)"

text \<open>\<open>chat.unreadCount || 0\<close>.\<close>

fun unread_or_zero :: "chat \<Rightarrow> int" where
  "unread_or_zero c = (case unreadCount c of None \<Rightarrow> 0 | Some n \<Rightarrow> n)"

text \<open>\<open>chat.unreadCount && chat.unreadCount > 0\<close>.\<close>

fun has_unread :: "chat \<Rightarrow> bool" where
  "has_unread c = (case unreadCount c of None \<Rightarrow> False | Some n \<Rightarrow> 0 < n)"

text \<open>\<open>chat.lastMessage?.id === tempId\<close>.\<close>

fun last_is :: "chat \<Rightarrow> string \<Rightarrow> bool" where
  "last_is c i = (case lastMessage c of None \<Rightarrow> False | Some m \<Rightarrow> msg_id m = i)"

text \<open>\<open>!currentUser?.id\<close>: there is no user, or its id is the empty string.\<close>

fun no_id :: "user option \<Rightarrow> bool" where
  "no_id None = True"
| "no_id (Some u) = (user_id u = [])"

text \<open>Removing the element at an index and putting a chat in front: the
  \<open>splice\<close>/\<open>slice\<close> idiom of the handlers.\<close>

definition to_front :: "'a \<Rightarrow> nat \<Rightarrow> 'a list \<Rightarrow> 'a list" where
  "to_front x i xs = x # take i xs @ drop (Suc i) xs"

text \<open>
  \<open>!!data.onlineUsers[id]\<close>. The snapshot of online users is an object parsed from JSON,
  so the lookup of a key it does not hold goes on to \<open>Object.prototype\<close>: for the names
  of the properties of \<open>Object.prototype\<close> it yields a function or an object, which is
  truthy, and for every other key \<open>undefined\<close>. An entry of the snapshot itself is truthy
  when its string is not empty.
\<close>

definition object_prototype_keys :: "string list" where
  "object_prototype_keys =
    [''constructor'', ''__defineGetter__'', ''__defineSetter__'', ''hasOwnProperty'',
     ''__lookupGetter__'', ''__lookupSetter__'', ''isPrototypeOf'', ''propertyIsEnumerable'',
     ''toString'', ''valueOf'', ''__proto__'', ''toLocaleString'']"

definition listed_online :: "(string \<rightharpoonup> string) \<Rightarrow> string \<Rightarrow> bool" where
  "listed_online online i =
    (case online i of
       Some v \<Rightarrow> v \<noteq> []
     | None \<Rightarrow> i \<in> set object_prototype_keys)"

section \<open>The effect that installs the listeners\<close>

definition initialAvailableUsers :: "user list" where
  "initialAvailableUsers =
    [\<lparr>user_id = ''user1'', user_name = ''Alice'',
       avatarUrl = Some ''https://picsum.photos/seed/alice/100/100'', isOnline = False\<rparr>,
     \<lparr>user_id = ''user2'', user_name = ''Bob'',
       avatarUrl = Some ''https://picsum.photos/seed/bob/100/100'', isOnline = False\<rparr>,
     \<lparr>user_id = ''user3'', user_name = ''Charlie'',
       avatarUrl = Some ''https://picsum.photos/seed/charlie/100/100'', isOnline = False\<rparr>,
     \<lparr>user_id = ''user4'', user_name = ''Diana'',
       avatarUrl = Some ''https://picsum.photos/seed/diana/100/100'', isOnline = False\<rparr>]"

text \<open>The state of the first render of \<open>ChatterBoxApp\<close> for the user \<open>initialUser\<close>: the
  initial values of the \<open>useState\<close> calls. No socket exists yet (\<open>socketRef.current\<close> is
  \<open>null\<close> before the first login and after every logout).\<close>

definition first_render :: "user \<Rightarrow> app_state" where
  "first_render initialUser =
    \<lparr>currentUser = Some initialUser, userObject = 0, chats = [], selectedChatId = None,
     availableUsers = initialAvailableUsers, view = ChatsView, isLoadingData = True,
     isNewGroupModalOpen = False, socket = False, listeners = None, emitted = []\<rparr>"

text \<open>
  The body of the effect, run after the render with the state \<open>s\<close>. Without a valid user
  it logs out and does nothing else (the parent then unmounts the component). Otherwise
  it stores \<open>initialUser\<close> as the current user and sets the loading flag. Only when no
  socket exists does it create one and install the listeners, which close over
  \<open>selectedChatId\<close> and \<open>currentUser\<close> of this render; with a socket it installs nothing,
  and disconnects when the current user has no id.
\<close>

definition effect_body :: "user \<Rightarrow> app_state \<Rightarrow> app_state" where
  "effect_body initialUser s =
    (if user_id initialUser = [] then s
     else
       (let s1 = s\<lparr>currentUser := Some initialUser, userObject := 0, isLoadingData := True\<rparr>
        in if socket s
           then (if no_id (currentUser s) then s1\<lparr>socket := False\<rparr> else s1)
           else s1\<lparr>socket := True,
                   listeners := Some \<lparr>cl_selectedChatId = selectedChatId s,
                                       cl_currentUser = currentUser s\<rparr>\<rparr>))"

text \<open>The cleanup of the effect: with a socket, every listener is removed from it.\<close>

definition effect_cleanup :: "app_state \<Rightarrow> app_state" where
  "effect_cleanup s = (if socket s then s\<lparr>listeners := None\<rparr> else s)"

text \<open>Mounting the component: the first render, then the effect.\<close>

definition mount :: "user \<Rightarrow> app_state" where
  "mount initialUser = effect_body initialUser (first_render initialUser)"

text \<open>
  The dependencies of the effect that can change while the component is mounted:
  \<open>selectedChatId\<close> and the object \<open>currentUser\<close>. (The others are the property
  \<open>initialUser\<close>, the logout callback of the parent, which is memoised on the parent's
  own state, and \<open>toast\<close>; they are taken to stay the same during a session.)
\<close>

definition deps :: "app_state \<Rightarrow> string option \<times> nat option" where
  "deps s = (selectedChatId s, map_option (\<lambda>u. userObject s) (currentUser s))"

text \<open>Running the effect again: its cleanup, then its body.\<close>

definition rerun_effect :: "user \<Rightarrow> app_state \<Rightarrow> app_state" where
  "rerun_effect initialUser s = effect_body initialUser (effect_cleanup s)"

text \<open>
  What React does after a handler has replaced the state \<open>prev\<close> by \<open>s\<close>: when a
  dependency has changed, the effect runs again; its body stores \<open>initialUser\<close>, which
  may change the dependency \<open>currentUser\<close> once more and make the effect run a second
  time. After that the dependencies are stable.
\<close>

definition settle :: "user \<Rightarrow> app_state \<Rightarrow> app_state \<Rightarrow> app_state" where
  "settle initialUser prev s =
    (if deps s = deps prev then s
     else
       (let s1 = rerun_effect initialUser s
        in if deps s1 = deps s then s1 else rerun_effect initialUser s1))"

text \<open>\<open>setCurrentUser(prev => prev ? {...prev, ...} : null)\<close>: a new object when there is
  a current user.\<close>

definition replace_user :: "(user \<Rightarrow> user) \<Rightarrow> app_state \<Rightarrow> app_state" where
  "replace_user f s =
    (case currentUser s of
       None \<Rightarrow> s
     | Some p \<Rightarrow> s\<lparr>currentUser := Some (f p), userObject := Suc (userObject s)\<rparr>)"

section \<open>Connection lifecycle\<close>

text \<open>\<open>socket.on('connect')\<close> asks for the initial data; \<open>socket.on('connect_error')\<close> ends
  the loading state.\<close>

definition on_connect :: "app_state \<Rightarrow> app_state" where
  "on_connect s = s\<lparr>emitted := emitted s @ [RequestInitialData]\<rparr>"

definition on_connect_error :: "app_state \<Rightarrow> app_state" where
  "on_connect_error s = s\<lparr>isLoadingData := False\<rparr>"

text \<open>\<open>socket.on('disconnect')\<close>: unless the client itself closed the connection, the
  chats are dropped and the user list goes back to the fallback list.\<close>

definition on_disconnect :: "string \<Rightarrow> app_state \<Rightarrow> app_state" where
  "on_disconnect reason s =
    (if reason \<noteq> ''io client disconnect''
     then s\<lparr>isLoadingData := False, chats := [],
            availableUsers := initialAvailableUsers, selectedChatId := None\<rparr>
     else s)"

text \<open>The comparator of the initial sort reads the time of the last message, \<open>0\<close> when
  there is none. \<open>Array.prototype.sort\<close> is stable, as \<open>sort_key\<close> is; the comparator
  \<open>timeB - timeA\<close> orders by descending time.\<close>

fun chat_time :: "chat \<Rightarrow> int" where
  "chat_time c = (case lastMessage c of None \<Rightarrow> 0 | Some m \<Rightarrow> timestamp m)"

text \<open>\<open>!!data.onlineUsers[u.id] || u.id === initialUser.id\<close>.\<close>

definition online_flag :: "(string \<rightharpoonup> string) \<Rightarrow> user \<Rightarrow> user \<Rightarrow> bool" where
  "online_flag online initialUser u =
    (listed_online online (user_id u) \<or> user_id u = user_id initialUser)"

text \<open>\<open>socket.on('initial_data')\<close>. The user list is the server's, or the fallback list
  when the server sends none, with the logged-in user added at the end if the list lacks
  it (\<open>base_users\<close>); every user is then marked online by \<open>online_flag\<close>. The current
  user is replaced by a copy with the new flag. The test \<open>!selectedChatId\<close> reads the
  closure: if it holds and there are chats, the first chat is selected; without chats
  the selection is cleared.\<close>

definition base_users :: "user \<Rightarrow> initial_data \<Rightarrow> user list" where
  "base_users initialUser dat =
    (let baseUsers = (if d_allUsers dat \<noteq> [] then d_allUsers dat else initialAvailableUsers)
     in if \<exists>u \<in> set baseUsers. user_id u = user_id initialUser
        then baseUsers else baseUsers @ [initialUser])"

definition on_initial_data ::
  "user \<Rightarrow> closure \<Rightarrow> initial_data \<Rightarrow> app_state \<Rightarrow> app_state" where
  "on_initial_data initialUser cl dat s =
    (let sortedChats = sort_key (\<lambda>c. - chat_time c) (d_chats dat);
         s1 = s\<lparr>chats := sortedChats,
                availableUsers :=
                  map (\<lambda>u. u\<lparr>isOnline := online_flag (d_onlineUsers dat) initialUser u\<rparr>)
                    (base_users initialUser dat)\<rparr>;
         s2 = replace_user
                (\<lambda>p. p\<lparr>isOnline := online_flag (d_onlineUsers dat) initialUser p\<rparr>) s1
     in s2\<lparr>selectedChatId :=
             (case sortedChats of
                [] \<Rightarrow> None
              | c # _ \<Rightarrow> (if truthy (cl_selectedChatId cl) then selectedChatId s
                          else Some (chat_id c))),
           isLoadingData := False\<rparr>)"

text \<open>\<open>socket.on('user_status_update')\<close>. The test \<open>userId === currentUser?.id\<close> reads
  the closure.\<close>

definition set_online :: "string \<Rightarrow> bool \<Rightarrow> user \<Rightarrow> user" where
  "set_online userId online u = (if user_id u = userId then u\<lparr>isOnline := online\<rparr> else u)"

fun has_id :: "user option \<Rightarrow> string \<Rightarrow> bool" where
  "has_id None i = False"
| "has_id (Some u) i = (user_id u = i)"

definition on_user_status_update ::
  "closure \<Rightarrow> string \<Rightarrow> bool \<Rightarrow> app_state \<Rightarrow> app_state" where
  "on_user_status_update cl userId online s =
    (let s1 = s\<lparr>availableUsers := map (set_online userId online) (availableUsers s),
                chats := map (\<lambda>c. c\<lparr>participants :=
                                       map (set_online userId online) (participants c)\<rparr>)
                           (chats s)\<rparr>
     in if has_id (cl_currentUser cl) userId
        then replace_user (\<lambda>p. p\<lparr>isOnline := online\<rparr>) s1
        else s1)"

section \<open>Incoming messages and status updates\<close>

text \<open>\<open>socket.on('receive_message')\<close>. A message whose id the chat already holds is
  ignored; otherwise it is appended, becomes the last message, and the chat moves to the
  front. A message for a chat that is not in the list asks the server for the initial
  data again and leaves the chats alone. The selected chat and the current user are
  those of the closure.\<close>

definition append_received :: "string option \<Rightarrow> message \<Rightarrow> chat \<Rightarrow> chat" where
  "append_received selected newMessage c =
    (if \<exists>m \<in> set (messages c). msg_id m = msg_id newMessage then c
     else c\<lparr>messages := messages c @ [newMessage],
            lastMessage := Some newMessage,
            unreadCount :=
              Some (if selected = Some (chat_id c) then 0 else unread_or_zero c + 1)\<rparr>)"

definition on_receive_message ::
  "closure \<Rightarrow> message \<Rightarrow> string \<Rightarrow> app_state \<Rightarrow> app_state" where
  "on_receive_message cl newMessage chatId s =
    (let updatedChats =
           map (\<lambda>c. if chat_id c = chatId
                     then append_received (cl_selectedChatId cl) newMessage c else c) (chats s);
         s1 = (if \<exists>c \<in> set (chats s). chat_id c = chatId
               then (case findIndex (\<lambda>c. chat_id c = chatId) updatedChats of
                       None \<Rightarrow> s\<lparr>chats := updatedChats\<rparr>
                     | Some i \<Rightarrow> s\<lparr>chats := to_front (updatedChats ! i) i updatedChats\<rparr>)
               else s\<lparr>emitted := emitted s @ [RequestInitialData]\<rparr>)
     in case cl_currentUser cl of
          None \<Rightarrow> s1
        | Some u \<Rightarrow>
            (if cl_selectedChatId cl = Some chatId
             then s1\<lparr>emitted := emitted s1 @ [MarkAsRead chatId (user_id u)]\<rparr>
             else s1))"

text \<open>\<open>socket.on('message_status_update')\<close>.\<close>

definition on_message_status_update ::
  "string \<Rightarrow> string \<Rightarrow> message_status \<Rightarrow> app_state \<Rightarrow> app_state" where
  "on_message_status_update chatId messageId st s =
    s\<lparr>chats :=
        map (\<lambda>c. if chat_id c = chatId
                  then c\<lparr>messages :=
                         map (\<lambda>m. if msg_id m = messageId then m\<lparr>status := Some st\<rparr> else m)
                           (messages c)\<rparr>
                  else c) (chats s)\<rparr>"

section \<open>Chats arriving from the server\<close>

text \<open>\<open>socket.on('group_created')\<close>.\<close>

definition on_group_created :: "chat \<Rightarrow> app_state \<Rightarrow> app_state" where
  "on_group_created c s =
    (if \<exists>d \<in> set (chats s). chat_id d = chat_id c then s
     else s\<lparr>chats := c # chats s\<rparr>)"

text \<open>The list both \<open>direct_chat_started\<close> and the acknowledgement of \<open>create_group\<close>
  build: the payload in front, every older entry with its id removed. (The source
  branches on whether such an entry exists; without one the filter removes nothing.)\<close>

definition put_first :: "chat \<Rightarrow> chat list \<Rightarrow> chat list" where
  "put_first c cs =
    (if \<exists>d \<in> set cs. chat_id d = chat_id c
     then c # filter (\<lambda>d. chat_id d \<noteq> chat_id c) cs
     else c # cs)"

text \<open>\<open>socket.on('direct_chat_started')\<close>.\<close>

definition on_direct_chat_started :: "chat \<Rightarrow> app_state \<Rightarrow> app_state" where
  "on_direct_chat_started c s =
    s\<lparr>chats := put_first c (chats s), selectedChatId := Some (chat_id c), view := ChatsView\<rparr>"

text \<open>The acknowledgement callback of \<open>create_group\<close> in \<open>handleCreateGroup\<close>.\<close>

definition create_group_ack :: "group_ack \<Rightarrow> app_state \<Rightarrow> app_state" where
  "create_group_ack ack s =
    (case g_newChat ack of
       None \<Rightarrow> s
     | Some c \<Rightarrow>
         (if g_success ack
          then s\<lparr>chats := put_first c (chats s), selectedChatId := Some (chat_id c),
                 view := ChatsView, isNewGroupModalOpen := False\<rparr>
          else s))"

section \<open>User actions\<close>

text \<open>\<open>handleSelectChat\<close>. One \<open>mark_as_read\<close> is sent for every chat whose unread
  count is reset, provided the socket is there.\<close>

definition handleSelectChat :: "string \<Rightarrow> app_state \<Rightarrow> app_state" where
  "handleSelectChat chatId s =
    (case currentUser s of
       None \<Rightarrow> s\<lparr>selectedChatId := Some chatId, view := ChatsView\<rparr>
     | Some u \<Rightarrow>
         s\<lparr>selectedChatId := Some chatId,
           chats := map (\<lambda>c. if chat_id c = chatId \<and> has_unread c
                              then c\<lparr>unreadCount := Some 0\<rparr> else c) (chats s),
           emitted := emitted s @
             (if socket s
              then map (\<lambda>c. MarkAsRead chatId (user_id u))
                     (filter (\<lambda>c. chat_id c = chatId \<and> has_unread c) (chats s))
              else []),
           view := ChatsView\<rparr>)"

text \<open>\<open>handleSendMessage\<close>, up to and including the emission of \<open>send_message\<close>. The
  temporary id and the time stamp come from the clock and the random generator; they are
  parameters here.\<close>

definition new_message :: "string \<Rightarrow> user \<Rightarrow> string \<Rightarrow> int \<Rightarrow> message_type \<Rightarrow> message" where
  "new_message tempId u body now ty =
    \<lparr>msg_id = tempId, sender = u, content = body, timestamp = now, mtype = ty,
     status = Some Sent, error = None\<rparr>"

definition handleSendMessage ::
  "string \<Rightarrow> string \<Rightarrow> message_type \<Rightarrow> string \<Rightarrow> int \<Rightarrow> app_state \<Rightarrow> app_state" where
  "handleSendMessage chatId body ty tempId now s =
    (case currentUser s of
       None \<Rightarrow> s
     | Some u \<Rightarrow>
         (if socket s
          then
            (let newMessage = new_message tempId u body now ty;
                 s1 = (case findIndex (\<lambda>c. chat_id c = chatId) (chats s) of
                         None \<Rightarrow> s
                       | Some i \<Rightarrow>
                           (let targetChat = chats s ! i;
                                updatedChat = targetChat
                                  \<lparr>messages := messages targetChat @ [newMessage],
                                   lastMessage := Some newMessage,
                                   unreadCount := Some 0\<rparr>
                            in s\<lparr>chats := to_front updatedChat i (chats s)\<rparr>))
             in s1\<lparr>emitted := emitted s1 @ [SendMessage chatId newMessage]\<rparr>)
          else s))"

text \<open>The acknowledgement callback of \<open>send_message\<close>. It succeeds when \<open>ack.success\<close>
  holds and \<open>ack.messageId\<close> is a non-empty string; every other reply takes the failure
  branch. \<open>ack_confirm\<close> and \<open>ack_fail\<close> are what the two branches do to a chat with the
  id of the send.\<close>

definition ack_confirm :: "string \<Rightarrow> string \<Rightarrow> chat \<Rightarrow> chat" where
  "ack_confirm tempId confirmed c =
    (let updatedMessages =
           map (\<lambda>m. if msg_id m = tempId
                     then m\<lparr>msg_id := confirmed, status := Some Delivered\<rparr> else m)
             (messages c)
     in c\<lparr>messages := updatedMessages,
          lastMessage :=
            (if last_is c tempId
             then (case find (\<lambda>m. msg_id m = confirmed) updatedMessages of
                     Some m \<Rightarrow> Some m
                   | None \<Rightarrow> lastMessage c)
             else lastMessage c)\<rparr>)"

definition ack_fail :: "string \<Rightarrow> string option \<Rightarrow> chat \<Rightarrow> chat" where
  "ack_fail tempId err c =
    (let revertedMessages =
           map (\<lambda>m. if msg_id m = tempId
                     then m\<lparr>status := None, error := Some (or_else err ''Failed to send'')\<rparr>
                     else m)
             (messages c);
         valid = filter (\<lambda>m. msg_id m \<noteq> tempId) revertedMessages;
         lastValidMessage = (if valid = [] then None else Some (last valid))
     in c\<lparr>messages := revertedMessages,
          lastMessage := (if last_is c tempId then lastValidMessage else lastMessage c)\<rparr>)"

text \<open>The test \<open>ack.success && ack.messageId\<close>: the confirmed id when the reply is a
  success, \<open>None\<close> when the failure branch is taken.\<close>

definition confirmed_id :: "send_ack \<Rightarrow> string option" where
  "confirmed_id ack =
    (if ack_success ack \<and> truthy (ack_messageId ack) then ack_messageId ack else None)"

definition send_message_ack :: "string \<Rightarrow> string \<Rightarrow> send_ack \<Rightarrow> app_state \<Rightarrow> app_state" where
  "send_message_ack chatId tempId ack s =
    (case confirmed_id ack of
       Some confirmed \<Rightarrow>
         s\<lparr>chats := map (\<lambda>c. if chat_id c = chatId
                              then ack_confirm tempId confirmed c else c) (chats s)\<rparr>
     | None \<Rightarrow>
         s\<lparr>chats := map (\<lambda>c. if chat_id c = chatId
                              then ack_fail tempId (ack_error ack) c else c) (chats s)\<rparr>)"

text \<open>\<open>handleStartDirectChat\<close>: an existing direct chat with the other user is selected;
  otherwise the server is asked to start one.\<close>

definition handleStartDirectChat :: "string \<Rightarrow> app_state \<Rightarrow> app_state" where
  "handleStartDirectChat otherUserId s =
    (case currentUser s of
       None \<Rightarrow> s
     | Some u \<Rightarrow>
         (if socket s
          then (if otherUserId = user_id u then s
                else (case find (\<lambda>c. \<not> isGroup c \<and> length (participants c) = 2
                                    \<and> (\<exists>p \<in> set (participants c). user_id p = otherUserId))
                             (chats s) of
                        Some existingChat \<Rightarrow>
                          (handleSelectChat (chat_id existingChat) s)\<lparr>view := ChatsView\<rparr>
                      | None \<Rightarrow>
                          s\<lparr>emitted := emitted s @ [EmitStartDirectChat (user_id u) otherUserId]\<rparr>))
          else s))"

text \<open>\<open>handleStartCall\<close> and \<open>handleEndCall\<close> append a call message, which has no status,
  to the chat and move the chat to the front; the unread count is left alone. The
  content is the kind of call (\<open>audio\<close> or \<open>video\<close>) or the duration. Both functions
  update the chats with the same code, \<open>append_call\<close> here. The acknowledgement replaces
  the temporary id and nothing else; a failure changes nothing.\<close>

definition call_message :: "string \<Rightarrow> user \<Rightarrow> string \<Rightarrow> int \<Rightarrow> message_type \<Rightarrow> message" where
  "call_message tempId u body now ty =
    \<lparr>msg_id = tempId, sender = u, content = body, timestamp = now, mtype = ty,
     status = None, error = None\<rparr>"

definition append_call :: "string \<Rightarrow> message \<Rightarrow> app_state \<Rightarrow> app_state" where
  "append_call chatId m s =
    (case findIndex (\<lambda>c. chat_id c = chatId) (chats s) of
       None \<Rightarrow> s
     | Some i \<Rightarrow>
         (let targetChat = chats s ! i;
              updatedChat = targetChat\<lparr>messages := messages targetChat @ [m],
                                       lastMessage := Some m\<rparr>
          in s\<lparr>chats := to_front updatedChat i (chats s)\<rparr>))"

definition handleStartCall :: "string \<Rightarrow> string \<Rightarrow> string \<Rightarrow> int \<Rightarrow> app_state \<Rightarrow> app_state" where
  "handleStartCall chatId kind tempId now s =
    (case currentUser s of
       None \<Rightarrow> s
     | Some u \<Rightarrow>
         (if socket s
          then (let m = call_message tempId u kind now CallStart;
                    s1 = append_call chatId m s
                in s1\<lparr>emitted := emitted s1 @ [EmitStartCall chatId m]\<rparr>)
          else s))"

definition handleEndCall :: "string \<Rightarrow> string \<Rightarrow> string \<Rightarrow> int \<Rightarrow> app_state \<Rightarrow> app_state" where
  "handleEndCall chatId duration tempId now s =
    (case currentUser s of
       None \<Rightarrow> s
     | Some u \<Rightarrow>
         (if socket s
          then (let m = call_message tempId u duration now CallEnd;
                    s1 = append_call chatId m s
                in s1\<lparr>emitted := emitted s1 @ [EmitEndCall chatId m]\<rparr>)
          else s))"

definition call_ack :: "string \<Rightarrow> string \<Rightarrow> send_ack \<Rightarrow> app_state \<Rightarrow> app_state" where
  "call_ack chatId tempId ack s =
    (case confirmed_id ack of
       Some confirmed \<Rightarrow>
         s\<lparr>chats := map (\<lambda>c. if chat_id c = chatId
                              then c\<lparr>messages :=
                                     map (\<lambda>m. if msg_id m = tempId
                                               then m\<lparr>msg_id := confirmed\<rparr> else m)
                                       (messages c)\<rparr>
                              else c) (chats s)\<rparr>
     | None \<Rightarrow> s)"

text \<open>\<open>handleCreateGroup\<close>, up to the emission of \<open>create_group\<close>. The name is the one the
  dialog passes, which is already trimmed.\<close>

definition handleCreateGroup :: "string \<Rightarrow> string list \<Rightarrow> app_state \<Rightarrow> app_state" where
  "handleCreateGroup groupName selectedUserIds s =
    (case currentUser s of
       None \<Rightarrow> s
     | Some u \<Rightarrow>
         (if socket s \<and> groupName \<noteq> [] \<and> selectedUserIds \<noteq> []
          then s\<lparr>emitted := emitted s @ [EmitCreateGroup groupName (user_id u # selectedUserIds)]\<rparr>
          else s))"

section \<open>The program: events and actions in sequence\<close>

text \<open>The events the server side of the socket can deliver.\<close>

datatype server_event =
    Connect
  | Disconnect string
  | ConnectError
  | InitialData initial_data
  | ReceiveMessage message string
  | MessageStatusUpdate string string message_status
  | UserStatusUpdate string bool
  | GroupCreated chat
  | DirectChatStarted chat
  | ServerError string

text \<open>The listener of each event, with the closure it was installed with.\<close>

fun handle :: "user \<Rightarrow> closure \<Rightarrow> server_event \<Rightarrow> app_state \<Rightarrow> app_state" where
  "handle initialUser cl Connect s = on_connect s"
| "handle initialUser cl (Disconnect reason) s = on_disconnect reason s"
| "handle initialUser cl ConnectError s = on_connect_error s"
| "handle initialUser cl (InitialData dat) s = on_initial_data initialUser cl dat s"
| "handle initialUser cl (ReceiveMessage m chatId) s = on_receive_message cl m chatId s"
| "handle initialUser cl (MessageStatusUpdate chatId messageId st) s =
     on_message_status_update chatId messageId st s"
| "handle initialUser cl (UserStatusUpdate userId online) s =
     on_user_status_update cl userId online s"
| "handle initialUser cl (GroupCreated c) s = on_group_created c s"
| "handle initialUser cl (DirectChatStarted c) s = on_direct_chat_started c s"
| "handle initialUser cl (ServerError msg) s = s"

text \<open>
  An event arriving at the client. Without listeners nothing happens. With listeners the
  handler runs, and then the effect if the handler changed one of its dependencies.
\<close>

definition deliver :: "user \<Rightarrow> server_event \<Rightarrow> app_state \<Rightarrow> app_state" where
  "deliver initialUser ev s =
    (case listeners s of
       None \<Rightarrow> s
     | Some cl \<Rightarrow> settle initialUser s (handle initialUser cl ev s))"

text \<open>
  What can happen to the mounted component: an event from the server, or a local action,
  which is an action of the user or the acknowledgement of an earlier emission. The local
  actions read the current state, not a closure, and are followed by the effect in the
  same way.

  A message is sent, and a call is started or ended, through the view of the selected
  chat (\<open>ChatInterface\<close>), which is rendered only when a chat of the list has the
  selected id and the view shows the chats; it passes the id of that chat. \<open>in_chat\<close> is
  this restriction. The other restrictions of the user interface (a chat can be selected
  only while the list of chats is shown, a group created only from its dialog) are left
  out of \<open>act\<close>, so the runs below include every run of the program. Logging out ends
  the session and is not an action here.
\<close>

definition selected_chat :: "app_state \<Rightarrow> chat option" where
  "selected_chat s =
    (case selectedChatId s of
       None \<Rightarrow> None
     | Some i \<Rightarrow> find (\<lambda>c. chat_id c = i) (chats s))"

definition in_chat :: "(string \<Rightarrow> app_state \<Rightarrow> app_state) \<Rightarrow> app_state \<Rightarrow> app_state" where
  "in_chat f s =
    (case selected_chat s of
       None \<Rightarrow> s
     | Some c \<Rightarrow> (if view s = ChatsView then f (chat_id c) s else s))"

datatype client_action =
    SelectChat string
  | StartDirectChat string
  | Send string message_type string int
  | SendAck string string send_ack
  | StartCall string string int
  | EndCall string string int
  | CallAck string string send_ack
  | CreateGroup string "string list"
  | CreateGroupAck group_ack
  | SetView view_mode
  | SetGroupModal bool

datatype action = FromServer server_event | Local client_action

text \<open>The handler of a local action.\<close>

fun act :: "client_action \<Rightarrow> app_state \<Rightarrow> app_state" where
  "act (SelectChat chatId) s = handleSelectChat chatId s"
| "act (StartDirectChat otherUserId) s = handleStartDirectChat otherUserId s"
| "act (Send body ty tempId now) s =
     in_chat (\<lambda>chatId. handleSendMessage chatId body ty tempId now) s"
| "act (SendAck chatId tempId ack) s = send_message_ack chatId tempId ack s"
| "act (StartCall kind tempId now) s =
     in_chat (\<lambda>chatId. handleStartCall chatId kind tempId now) s"
| "act (EndCall duration tempId now) s =
     in_chat (\<lambda>chatId. handleEndCall chatId duration tempId now) s"
| "act (CallAck chatId tempId ack) s = call_ack chatId tempId ack s"
| "act (CreateGroup groupName ids) s = handleCreateGroup groupName ids s"
| "act (CreateGroupAck ack) s = create_group_ack ack s"
| "act (SetView v) s = s\<lparr>view := v\<rparr>"
| "act (SetGroupModal b) s = s\<lparr>isNewGroupModalOpen := b\<rparr>"

text \<open>One step of the program, and a run from a state.\<close>

fun step :: "user \<Rightarrow> action \<Rightarrow> app_state \<Rightarrow> app_state" where
  "step initialUser (FromServer ev) s = deliver initialUser ev s"
| "step initialUser (Local a) s = settle initialUser s (act a s)"

fun run :: "user \<Rightarrow> action list \<Rightarrow> app_state \<Rightarrow> app_state" where
  "run initialUser [] s = s"
| "run initialUser (a # as) s = run initialUser as (step initialUser a s)"


section \<open>The order of the status values\<close>

text \<open>The order \<open>sent < delivered < read\<close> of the status values.\<close>

fun status_rank :: "message_status \<Rightarrow> nat" where
  "status_rank Sent = 0"
| "status_rank Delivered = 1"
| "status_rank Read = 2"

section \<open>A session used in the examples\<close>

text \<open>Alice logs in. The server's initial data bring two chats, \<open>c2\<close> in front of \<open>c1\<close>,
  which has three unread messages, and show Alice and Bob online; the handler selects
  the first chat, \<open>c2\<close>. The state this leaves is \<open>example_state\<close>. Alice then sends \<open>hi\<close>
  to \<open>c1\<close>; the server either confirms the message under the id \<open>srv1\<close> or rejects it
  with the reason \<open>offline\<close>.\<close>

definition alice :: user where
  "alice = \<lparr>user_id = ''user1'', user_name = ''Alice'',
            avatarUrl = Some ''https://picsum.photos/seed/alice/100/100'', isOnline = True\<rparr>"

definition bob :: user where
  "bob = \<lparr>user_id = ''user2'', user_name = ''Bob'',
          avatarUrl = Some ''https://picsum.photos/seed/bob/100/100'', isOnline = True\<rparr>"

definition chat_c1 :: chat where
  "chat_c1 = \<lparr>chat_id = ''c1'', isGroup = False, chat_name = None,
              participants = [alice, bob], messages = [], lastMessage = None,
              unreadCount = Some 3\<rparr>"

definition chat_c2 :: chat where
  "chat_c2 = \<lparr>chat_id = ''c2'', isGroup = False, chat_name = None,
              participants = [alice], messages = [], lastMessage = None,
              unreadCount = None\<rparr>"

definition example_data :: initial_data where
  "example_data =
    \<lparr>d_chats = [chat_c2, chat_c1],
     d_onlineUsers = [''user1'' \<mapsto> ''socket_1'', ''user2'' \<mapsto> ''socket_2''],
     d_allUsers = [alice, bob]\<rparr>"

definition example_state :: app_state where
  "example_state =
    \<lparr>currentUser = Some alice, userObject = 0, chats = [chat_c2, chat_c1],
     selectedChatId = Some ''c2'', availableUsers = [alice, bob], view = ChatsView,
     isLoadingData = True, isNewGroupModalOpen = False, socket = True, listeners = None,
     emitted = []\<rparr>"

definition hi_message :: message where
  "hi_message = new_message ''temp_1'' alice ''hi'' 1000 TextMsg"

definition sent_state :: app_state where
  "sent_state = handleSendMessage ''c1'' ''hi'' TextMsg ''temp_1'' 1000 example_state"

definition ok_ack :: send_ack where
  "ok_ack = \<lparr>ack_success = True, ack_messageId = Some ''srv1'', ack_error = None\<rparr>"

definition offline_ack :: send_ack where
  "offline_ack = \<lparr>ack_success = False, ack_messageId = None, ack_error = Some ''offline''\<rparr>"

definition confirmed_state :: app_state where
  "confirmed_state = send_message_ack ''c1'' ''temp_1'' ok_ack sent_state"

definition failed_state :: app_state where
  "failed_state = send_message_ack ''c1'' ''temp_1'' offline_ack sent_state"

definition read_state :: app_state where
  "read_state = on_message_status_update ''c1'' ''srv1'' Read confirmed_state"

definition team_chat :: chat where
  "team_chat = \<lparr>chat_id = ''g1'', isGroup = True, chat_name = Some ''Team'',
                participants = [alice, bob], messages = [], lastMessage = None,
                unreadCount = None\<rparr>"

definition team_ack :: group_ack where
  "team_ack = \<lparr>g_success = True, g_newChat = Some team_chat, g_error = None\<rparr>"


text \<open>A second session of Alice: the initial data bring the chats \<open>c2\<close> and \<open>c3\<close>, none
  with unread messages, and \<open>c2\<close> is selected. Two messages from Bob for \<open>c3\<close> follow.\<close>

definition chat_c3 :: chat where
  "chat_c3 = \<lparr>chat_id = ''c3'', isGroup = False, chat_name = None,
              participants = [alice, bob], messages = [], lastMessage = None,
              unreadCount = None\<rparr>"

definition quiet_data :: initial_data where
  "quiet_data =
    \<lparr>d_chats = [chat_c2, chat_c3],
     d_onlineUsers = [''user1'' \<mapsto> ''socket_1'', ''user2'' \<mapsto> ''socket_2''],
     d_allUsers = [alice, bob]\<rparr>"

definition quiet_state :: app_state where
  "quiet_state =
    run alice [FromServer Connect, FromServer (InitialData quiet_data)] (mount alice)"

definition hello_message :: message where
  "hello_message = new_message ''srv7'' bob ''hello'' 2000 TextMsg"

definition there_message :: message where
  "there_message = new_message ''srv8'' bob ''there'' 2001 TextMsg"

definition two_received_state :: app_state where
  "two_received_state =
    run alice [FromServer (ReceiveMessage hello_message ''c3''),
               FromServer (ReceiveMessage there_message ''c3'')] quiet_state"

text \<open>In the first session the connection drops and comes back; the server then reports
  only Alice's socket in the snapshot of online users.\<close>

definition reconnect_data :: initial_data where
  "reconnect_data =
    \<lparr>d_chats = [], d_onlineUsers = [''user1'' \<mapsto> ''socket_9''], d_allUsers = [alice, bob]\<rparr>"

definition dropped_state :: app_state where
  "dropped_state = run alice [FromServer (Disconnect ''transport close'')] example_state"

definition reconnected_state :: app_state where
  "reconnected_state =
    run alice [FromServer Connect, FromServer (InitialData reconnect_data)] dropped_state"

section \<open>Facts about the list helpers\<close>

lemma findIndex_Some:
  "findIndex P xs = Some i \<Longrightarrow> i < length xs \<and> P (xs ! i) \<and> filter P (take i xs) = []"
proof (induction xs arbitrary: i)
  case Nil
  then show ?case by simp
next
  case (Cons x xs)
  show ?case
  proof (cases "P x")
    case True
    with Cons.prems show ?thesis by simp
  next
    case False
    with Cons.prems obtain k where k: "findIndex P xs = Some k" "i = Suc k"
      by auto
    with Cons.IH [OF k(1)] False show ?thesis by simp
  qed
qed

lemma findIndex_None: "findIndex P xs = None \<longleftrightarrow> (\<forall>x \<in> set xs. \<not> P x)"
  by (induction xs) auto

lemma findIndex_map:
  "(\<And>x. P (f x) = P x) \<Longrightarrow> findIndex P (map f xs) = findIndex P xs"
  by (induction xs) auto

lemma filter_to_front:
  assumes "findIndex P xs = Some i"
  shows "filter P (to_front y i xs) = filter P [y] @ filter P (drop (Suc i) xs)"
  using findIndex_Some [OF assms] by (simp add: to_front_def)

lemma filter_split_at:
  assumes "findIndex P xs = Some i"
  shows "filter P xs = xs ! i # filter P (drop (Suc i) xs)"
proof -
  from findIndex_Some [OF assms] have i: "i < length xs" "P (xs ! i)" "filter P (take i xs) = []"
    by auto
  have "xs = take i xs @ xs ! i # drop (Suc i) xs"
    using i(1) by (rule id_take_nth_drop)
  then have "filter P xs = filter P (take i xs) @ filter P (xs ! i # drop (Suc i) xs)"
    by (metis filter_append)
  with i show ?thesis by simp
qed

section \<open>Facts about the example session\<close>

lemma findIndex_c1: "findIndex (\<lambda>c. chat_id c = ''c1'') (chats example_state) = Some 1"
  by (simp add: example_state_def chat_c1_def chat_c2_def)

lemma sent_state_chats:
  "chats sent_state =
    [chat_c1\<lparr>messages := [hi_message], lastMessage := Some hi_message, unreadCount := Some 0\<rparr>,
     chat_c2]"
  by (simp add: sent_state_def handleSendMessage_def example_state_def hi_message_def
      to_front_def chat_c1_def chat_c2_def Let_def)

lemma sent_state_emitted: "emitted sent_state = [SendMessage ''c1'' hi_message]"
  by (simp add: sent_state_def handleSendMessage_def example_state_def hi_message_def
      to_front_def chat_c1_def chat_c2_def Let_def)

lemma example_state_user:
  "socket example_state" "currentUser example_state = Some alice"
  "selectedChatId example_state = Some ''c2''" "emitted example_state = []"
  "chats example_state = [chat_c2, chat_c1]"
  by (simp_all add: example_state_def)

lemma confirmed_state_chats:
  "chats confirmed_state =
    [chat_c1\<lparr>messages := [hi_message\<lparr>msg_id := ''srv1'', status := Some Delivered\<rparr>],
             lastMessage := Some (hi_message\<lparr>msg_id := ''srv1'', status := Some Delivered\<rparr>),
             unreadCount := Some 0\<rparr>,
     chat_c2]"
  by (simp add: confirmed_state_def send_message_ack_def confirmed_id_def ok_ack_def
      sent_state_chats ack_confirm_def chat_c1_def chat_c2_def hi_message_def new_message_def)

lemma failed_state_chats:
  "chats failed_state =
    [chat_c1\<lparr>messages := [hi_message\<lparr>status := None, error := Some ''offline''\<rparr>],
             lastMessage := None, unreadCount := Some 0\<rparr>,
     chat_c2]"
  by (simp add: failed_state_def send_message_ack_def confirmed_id_def offline_ack_def
      sent_state_chats ack_fail_def chat_c1_def chat_c2_def hi_message_def new_message_def)

lemma read_state_chats:
  "chats read_state =
    [chat_c1\<lparr>messages := [hi_message\<lparr>msg_id := ''srv1'', status := Some Read\<rparr>],
             lastMessage := Some (hi_message\<lparr>msg_id := ''srv1'', status := Some Delivered\<rparr>),
             unreadCount := Some 0\<rparr>,
     chat_c2]"
  by (simp add: read_state_def on_message_status_update_def confirmed_state_chats
      chat_c1_def chat_c2_def hi_message_def new_message_def)

section \<open>Group creation: acknowledgement and broadcast\<close>

lemma put_first_once: "length (filter (\<lambda>d. chat_id d = chat_id c) (put_first c cs)) = 1"
  by (simp add: put_first_def)

lemma put_first_hd: "put_first c cs ! 0 = c"
  by (simp add: put_first_def)

lemma put_first_others:
  "filter (\<lambda>d. chat_id d \<noteq> chat_id c) (put_first c cs) = filter (\<lambda>d. chat_id d \<noteq> chat_id c) cs"
  by (simp add: put_first_def)

lemma chats_create_group_ack:
  "g_success ack \<Longrightarrow> g_newChat ack = Some a \<Longrightarrow>
    chats (create_group_ack ack s) = put_first a (chats s)"
  by (simp add: create_group_ack_def)

lemma group_created_known:
  "c \<in> set (chats s) \<Longrightarrow> chat_id c = chat_id b \<Longrightarrow> on_group_created b s = s"
  by (auto simp: on_group_created_def)

text \<open>
  Claim C7. When the acknowledgement of \<open>create_group\<close> and the broadcast
  \<open>group_created\<close> both carry a chat with the id \<open>G\<close>, then after both have been handled,
  in either order, the chat list holds exactly one chat with the id \<open>G\<close>. This holds from
  every state, whatever the two payloads otherwise contain.
\<close>

theorem C7_group_once:
  assumes "chat_id a = G" and "chat_id b = G"
    and "g_success ack" and "g_newChat ack = Some a"
  shows "length (filter (\<lambda>d. chat_id d = G)
                  (chats (on_group_created b (create_group_ack ack s)))) = 1
       \<and> length (filter (\<lambda>d. chat_id d = G)
                  (chats (create_group_ack ack (on_group_created b s)))) = 1"
proof
  have ack: "chats (create_group_ack ack t) = put_first a (chats t)" for t
    using assms(3,4) by (rule chats_create_group_ack)
  have "a \<in> set (chats (create_group_ack ack s))"
    by (simp add: ack put_first_def)
  then have "on_group_created b (create_group_ack ack s) = create_group_ack ack s"
    using assms(1,2) by (simp add: group_created_known)
  then show "length (filter (\<lambda>d. chat_id d = G)
                  (chats (on_group_created b (create_group_ack ack s)))) = 1"
    using put_first_once [of a "chats s"] assms(1) by (simp add: ack)
  show "length (filter (\<lambda>d. chat_id d = G)
                  (chats (create_group_ack ack (on_group_created b s)))) = 1"
    using put_first_once [of a "chats (on_group_created b s)"] assms(1) by (simp add: ack)
qed

theorem C7_group_once_witness:
  "chat_id team_chat = ''g1'' \<and> g_success team_ack \<and> g_newChat team_ack = Some team_chat
   \<and> length (filter (\<lambda>d. chat_id d = ''g1'')
       (chats (on_group_created team_chat (create_group_ack team_ack example_state)))) = 1
   \<and> length (filter (\<lambda>d. chat_id d = ''g1'')
       (chats (create_group_ack team_ack (on_group_created team_chat example_state)))) = 1"
proof -
  have h: "chat_id team_chat = ''g1''" "g_success team_ack" "g_newChat team_ack = Some team_chat"
    by (simp_all add: team_chat_def team_ack_def)
  from C7_group_once [OF h(1) h(1) h(2) h(3), of example_state] h
  show ?thesis by blast
qed

section \<open>Sending a message\<close>

text \<open>
  Claim C3, as stated, fails: the message \<open>handleSendMessage\<close> builds has the status
  \<open>'sent'\<close>, not \<open>'pending'\<close>; the status values of a message are \<open>sent\<close>, \<open>delivered\<close>
  and \<open>read\<close>, and no value \<open>pending\<close> exists. In the example session the one message of
  chat \<open>c1\<close> after the send has the status \<open>sent\<close>.
\<close>

theorem C3_status_pending_counterexample:
  "map status (messages (chats sent_state ! 0)) = [Some Sent]
   \<and> status (last (messages (chats sent_state ! 0))) = Some Sent"
  by (simp add: sent_state_chats hi_message_def new_message_def)

text \<open>
  Claim C3, amended. With a socket and a logged-in user, a send into a chat that is in the
  list (\<open>i\<close> is the index of the first chat with the id) builds a message with the
  temporary id and the status \<open>'sent'\<close>, appends it to the messages of that chat, makes it
  the chat's last message and moves the chat to index 0; the other chats keep their
  order. All this happens in the one state update of the send, before any reply.
\<close>

theorem C3_send_appends:
  assumes "socket s" "currentUser s = Some u"
    and "findIndex (\<lambda>c. chat_id c = chatId) (chats s) = Some i"
  shows "(let m = new_message tempId u body now ty;
              c = chats s ! i;
              s' = handleSendMessage chatId body ty tempId now s
          in chat_id c = chatId \<and> msg_id m = tempId \<and> status m = Some Sent
             \<and> chat_id (chats s' ! 0) = chatId
             \<and> messages (chats s' ! 0) = messages c @ [m]
             \<and> lastMessage (chats s' ! 0) = Some m
             \<and> tl (chats s') = take i (chats s) @ drop (Suc i) (chats s))"
  using assms findIndex_Some [OF assms(3)]
  by (simp add: handleSendMessage_def to_front_def new_message_def Let_def)

theorem C3_send_appends_witness:
  "socket example_state \<and> currentUser example_state = Some alice
   \<and> findIndex (\<lambda>c. chat_id c = ''c1'') (chats example_state) = Some 1
   \<and> status hi_message = Some Sent
   \<and> chat_id (chats sent_state ! 0) = ''c1''
   \<and> messages (chats sent_state ! 0) = [hi_message]
   \<and> lastMessage (chats sent_state ! 0) = Some hi_message
   \<and> tl (chats sent_state) = [chat_c2]"
  using C3_send_appends [OF example_state_user(1,2) findIndex_c1,
      where tempId = "''temp_1''" and body = "''hi''" and now = 1000 and ty = TextMsg]
    example_state_user(1,2) findIndex_c1
  by (simp add: Let_def sent_state_def [symmetric] hi_message_def [symmetric]
      example_state_user(5) chat_c1_def)

text \<open>
  Claim C10. The same state update sets the unread count of the chat to 0, whichever chat
  is selected, and the only event the send emits is \<open>send_message\<close>: no \<open>mark_as_read\<close>
  goes to the server, and the selection is unchanged. In the example, chat \<open>c1\<close> has three
  unread messages and \<open>c2\<close> is the selected chat.
\<close>

theorem C10_send_resets_unread:
  assumes "socket s" "currentUser s = Some u"
    and "findIndex (\<lambda>c. chat_id c = chatId) (chats s) = Some i"
  shows "(let s' = handleSendMessage chatId body ty tempId now s
          in chat_id (chats s' ! 0) = chatId
             \<and> unreadCount (chats s' ! 0) = Some 0
             \<and> emitted s' = emitted s @ [SendMessage chatId (new_message tempId u body now ty)]
             \<and> selectedChatId s' = selectedChatId s)"
  using assms findIndex_Some [OF assms(3)]
  by (simp add: handleSendMessage_def to_front_def Let_def)

theorem C10_send_resets_unread_witness:
  "socket example_state \<and> currentUser example_state = Some alice
   \<and> findIndex (\<lambda>c. chat_id c = ''c1'') (chats example_state) = Some 1
   \<and> unreadCount (chats example_state ! 1) = Some 3
   \<and> selectedChatId example_state = Some ''c2''
   \<and> chat_id (chats sent_state ! 0) = ''c1''
   \<and> unreadCount (chats sent_state ! 0) = Some 0
   \<and> emitted sent_state = [SendMessage ''c1'' hi_message]
   \<and> selectedChatId sent_state = Some ''c2''"
  using C10_send_resets_unread [OF example_state_user(1,2) findIndex_c1,
      where tempId = "''temp_1''" and body = "''hi''" and now = 1000 and ty = TextMsg]
    example_state_user(1,2,3,4) findIndex_c1
  by (simp add: Let_def sent_state_def [symmetric] hi_message_def [symmetric]
      example_state_user(5) chat_c1_def)

section \<open>Status updates\<close>

text \<open>
  Claim C1, as stated, fails: \<open>message_status_update\<close> writes the status it carries
  whatever the message has. In the example session the message is sent, confirmed as
  \<open>srv1\<close> (status \<open>delivered\<close>) and then reported \<open>read\<close>; a \<open>delivered\<close> update that
  arrives afterwards moves it back from \<open>read\<close> to \<open>delivered\<close>.
\<close>

theorem C1_status_regresses_counterexample:
  "map status (messages (chats read_state ! 0)) = [Some Read]
   \<and> map status (messages (chats (on_message_status_update ''c1'' ''srv1'' Delivered read_state) ! 0))
       = [Some Delivered]
   \<and> status_rank Delivered < status_rank Read"
  by (simp add: on_message_status_update_def read_state_chats chat_c1_def hi_message_def
      new_message_def)

text \<open>
  Claim C1, amended. \<open>message_status_update\<close> keeps every chat and every message in its
  place and writes the status of the event into the messages with the given id in the
  chats with the given chat id, whatever their status was; every other message is left as
  it is. So the status of a message goes forward only if the event carries a status that
  is not below the current one.
\<close>

theorem C1_status_update_overwrites:
  assumes "i < length (chats s)" "j < length (messages (chats s ! i))"
  shows "(let c = chats s ! i;
              c' = chats (on_message_status_update chatId messageId st s) ! i;
              m = messages c ! j
          in length (chats (on_message_status_update chatId messageId st s)) = length (chats s)
             \<and> length (messages c') = length (messages c)
             \<and> messages c' ! j =
                 (if chat_id c = chatId \<and> msg_id m = messageId then m\<lparr>status := Some st\<rparr> else m))"
  using assms by (simp add: on_message_status_update_def Let_def)

theorem C1_status_update_overwrites_witness:
  "0 < length (chats read_state) \<and> 0 < length (messages (chats read_state ! 0))
   \<and> status (messages (chats read_state ! 0) ! 0) = Some Read
   \<and> messages (chats (on_message_status_update ''c1'' ''srv1'' Delivered read_state) ! 0) ! 0
       = (messages (chats read_state ! 0) ! 0)\<lparr>status := Some Delivered\<rparr>"
proof -
  have h: "0 < length (chats read_state)" "0 < length (messages (chats read_state ! 0))"
    by (simp_all add: read_state_chats)
  have m: "status (messages (chats read_state ! 0) ! 0) = Some Read"
    "msg_id (messages (chats read_state ! 0) ! 0) = ''srv1''"
    "chat_id (chats read_state ! 0) = ''c1''"
    by (simp_all add: read_state_chats chat_c1_def)
  from C1_status_update_overwrites [OF h, of "''c1''" "''srv1''" Delivered] h m
  show ?thesis by (simp add: Let_def)
qed

section \<open>The acknowledgement of a send\<close>

lemma filter_other_ids:
  "(\<And>m. msg_id (f m) = msg_id m) \<Longrightarrow>
   filter (\<lambda>x. msg_id x \<noteq> L) (map (\<lambda>m. if msg_id m = L then f m else m) ms)
     = filter (\<lambda>x. msg_id x \<noteq> L) ms"
  by (induction ms) simp_all

lemma chats_ack_fail:
  "confirmed_id ack = None \<Longrightarrow>
   chats (send_message_ack chatId L ack s)
     = map (\<lambda>c. if chat_id c = chatId then ack_fail L (ack_error ack) c else c) (chats s)"
  by (simp add: send_message_ack_def)

lemma chats_ack_confirm:
  "confirmed_id ack = Some K \<Longrightarrow>
   chats (send_message_ack chatId L ack s)
     = map (\<lambda>c. if chat_id c = chatId then ack_confirm L K c else c) (chats s)"
  by (simp add: send_message_ack_def)

lemma messages_ack_fail:
  "messages (ack_fail L err c)
     = map (\<lambda>m. if msg_id m = L
                 then m\<lparr>status := None, error := Some (or_else err ''Failed to send'')\<rparr> else m)
         (messages c)"
  by (simp add: ack_fail_def Let_def)

lemma lastMessage_ack_fail:
  "lastMessage (ack_fail L err c)
     = (if last_is c L
        then (if filter (\<lambda>x. msg_id x \<noteq> L) (messages c) = [] then None
              else Some (last (filter (\<lambda>x. msg_id x \<noteq> L) (messages c))))
        else lastMessage c)"
  by (simp add: ack_fail_def Let_def filter_other_ids del: last_is.simps)

lemma last_filter_other:
  assumes "filter (\<lambda>x. msg_id x \<noteq> L) ms \<noteq> []"
  shows "msg_id (last (filter (\<lambda>x. msg_id x \<noteq> L) ms)) \<noteq> L"
proof -
  from assms have "last (filter (\<lambda>x. msg_id x \<noteq> L) ms) \<in> set (filter (\<lambda>x. msg_id x \<noteq> L) ms)"
    by (rule last_in_set)
  then show ?thesis by simp
qed

lemma lastMessage_ack_fail_other:
  "lastMessage (ack_fail L err c) = Some x \<Longrightarrow> msg_id x \<noteq> L"
proof (cases "last_is c L")
  case True
  assume "lastMessage (ack_fail L err c) = Some x"
  with True show ?thesis
    using last_filter_other [of L "messages c"]
    by (auto simp: lastMessage_ack_fail simp del: last_is.simps split: if_splits)
next
  case False
  assume "lastMessage (ack_fail L err c) = Some x"
  with False show ?thesis
    by (auto simp: lastMessage_ack_fail)
qed

lemma messages_ack_confirm:
  "messages (ack_confirm L K c)
     = map (\<lambda>m. if msg_id m = L then m\<lparr>msg_id := K, status := Some Delivered\<rparr> else m)
         (messages c)"
  by (simp add: ack_confirm_def Let_def)

lemma ack_confirm_frame:
  "(ack_confirm L K c)\<lparr>messages := messages c, lastMessage := lastMessage c\<rparr> = c"
  by (simp add: ack_confirm_def Let_def)

lemma lastMessage_ack_confirm_other:
  "\<not> last_is c L \<Longrightarrow> lastMessage (ack_confirm L K c) = lastMessage c"
  by (simp add: ack_confirm_def Let_def del: last_is.simps)

lemma find_first:
  assumes "j < length xs" and "P (xs ! j)" and "\<forall>k<j. \<not> P (xs ! k)"
  shows "find P xs = Some (xs ! j)"
  using assms by (auto simp: find_Some_iff)

lemma lastMessage_ack_confirm_first:
  assumes "last_is c L" and "j < length (messages c)" and "msg_id (messages c ! j) = L"
    and "\<forall>k<j. msg_id (messages c ! k) \<noteq> L \<and> msg_id (messages c ! k) \<noteq> K"
  shows "lastMessage (ack_confirm L K c) = Some (messages (ack_confirm L K c) ! j)"
proof -
  let ?ms = "messages (ack_confirm L K c)"
  have "find (\<lambda>m. msg_id m = K) ?ms = Some (?ms ! j)"
  proof (rule find_first)
    show "j < length ?ms" using assms(2) by (simp add: messages_ack_confirm)
    show "msg_id (?ms ! j) = K" using assms(2,3) by (simp add: messages_ack_confirm)
    show "\<forall>k<j. msg_id (?ms ! k) \<noteq> K"
      using assms(2,4) by (simp add: messages_ack_confirm)
  qed
  then have "find (\<lambda>m. msg_id m = K)
       (map (\<lambda>m. if msg_id m = L then m\<lparr>msg_id := K, status := Some Delivered\<rparr> else m)
         (messages c)) = Some (?ms ! j)"
    by (simp add: messages_ack_confirm)
  with assms(1) show ?thesis
    by (simp add: ack_confirm_def [of L K c] Let_def del: last_is.simps)
qed

text \<open>
  Claim C4, as stated, fails in two places. After the failure reply \<open>offline\<close> in the
  example session the message has no status at all (\<open>undefined\<close>) rather than \<open>failed\<close>;
  the failure is carried by the field \<open>error\<close>. And the last message of the chat is
  reverted: it was the message just sent and is absent afterwards, so it does not point
  at the failed message.
\<close>

theorem C4_failed_status_counterexample:
  "messages (chats sent_state ! 0) = [hi_message]
   \<and> lastMessage (chats sent_state ! 0) = Some hi_message
   \<and> map status (messages (chats failed_state ! 0)) = [None]
   \<and> map error (messages (chats failed_state ! 0)) = [Some ''offline'']
   \<and> lastMessage (chats failed_state ! 0) = None
   \<and> status (messages (chats failed_state ! 0) ! 0) = None
   \<and> lastMessage (chats failed_state ! 0) \<noteq> Some (messages (chats failed_state ! 0) ! 0)"
  by (simp add: sent_state_chats failed_state_chats)

text \<open>
  Claim C4, amended. When a reply that is not a success arrives for the local id \<open>L\<close>, a
  message with the id \<open>L\<close> in the chat keeps its place and its id; its status becomes
  undefined and its \<open>error\<close> is the reason of the reply (\<open>Failed to send\<close> when the reply
  has none or an empty one). If the chat's last message had the id \<open>L\<close>, it is reverted to
  the last message of the list whose id is not \<open>L\<close>, and is absent when there is none;
  otherwise it is unchanged. In no case is the failed entry the chat's last message
  afterwards.
\<close>

theorem C4_failure_ack:
  assumes "confirmed_id ack = None"
    and "i < length (chats s)" and "chat_id (chats s ! i) = chatId"
    and "j < length (messages (chats s ! i))" and "msg_id (messages (chats s ! i) ! j) = L"
  shows "(let c = chats s ! i;
              c' = chats (send_message_ack chatId L ack s) ! i;
              m = messages c ! j;
              m' = messages c' ! j
          in length (messages c') = length (messages c)
             \<and> m' = m\<lparr>status := None, error := Some (or_else (ack_error ack) ''Failed to send'')\<rparr>
             \<and> msg_id m' = L
             \<and> lastMessage c' =
                 (if last_is c L
                  then (if filter (\<lambda>x. msg_id x \<noteq> L) (messages c) = [] then None
                        else Some (last (filter (\<lambda>x. msg_id x \<noteq> L) (messages c))))
                  else lastMessage c)
             \<and> lastMessage c' \<noteq> Some m')"
proof -
  let ?c = "chats s ! i"
  have c': "chats (send_message_ack chatId L ack s) ! i = ack_fail L (ack_error ack) ?c"
    using assms(1,2,3) by (simp add: chats_ack_fail)
  have m': "messages (ack_fail L (ack_error ack) ?c) ! j
      = (messages ?c ! j)\<lparr>status := None, error := Some (or_else (ack_error ack) ''Failed to send'')\<rparr>"
    using assms(4,5) by (simp add: messages_ack_fail)
  have id: "msg_id (messages (ack_fail L (ack_error ack) ?c) ! j) = L"
    using assms(5) by (simp add: m')
  have "lastMessage (ack_fail L (ack_error ack) ?c) \<noteq> Some (messages (ack_fail L (ack_error ack) ?c) ! j)"
    using lastMessage_ack_fail_other [of L "ack_error ack" ?c] id by blast
  then show ?thesis
    unfolding Let_def c' using m' id
    by (simp add: messages_ack_fail lastMessage_ack_fail del: last_is.simps)
qed

theorem C4_failure_ack_witness:
  "confirmed_id offline_ack = None
   \<and> chat_id (chats sent_state ! 0) = ''c1''
   \<and> messages (chats sent_state ! 0) = [hi_message]
   \<and> lastMessage (chats sent_state ! 0) = Some hi_message
   \<and> msg_id hi_message = ''temp_1''
   \<and> messages (chats failed_state ! 0) = [hi_message\<lparr>status := None, error := Some ''offline''\<rparr>]
   \<and> lastMessage (chats failed_state ! 0) = None"
proof -
  have h: "confirmed_id offline_ack = None" "0 < length (chats sent_state)"
    "chat_id (chats sent_state ! 0) = ''c1''" "0 < length (messages (chats sent_state ! 0))"
    "msg_id (messages (chats sent_state ! 0) ! 0) = ''temp_1''"
    by (simp_all add: confirmed_id_def offline_ack_def sent_state_chats chat_c1_def
        hi_message_def new_message_def)
  from C4_failure_ack [OF h] h
  show ?thesis
    by (simp add: Let_def failed_state_def [symmetric] failed_state_chats sent_state_chats
        hi_message_def new_message_def)
qed

text \<open>
  Claim C5, as stated, fails: the success reply does not only swap the id, it also sets
  the status of the message to \<open>delivered\<close>. In the example session the entry is \<open>sent\<close>
  before the reply and \<open>delivered\<close> after it.
\<close>

theorem C5_status_changes_counterexample:
  "map status (messages (chats sent_state ! 0)) = [Some Sent]
   \<and> map status (messages (chats confirmed_state ! 0)) = [Some Delivered]
   \<and> messages (chats confirmed_state ! 0) \<noteq> [hi_message\<lparr>msg_id := ''srv1''\<rparr>]"
  by (simp add: sent_state_chats confirmed_state_chats hi_message_def new_message_def)

text \<open>
  Claim C5, amended. Let the reply confirm the id \<open>K\<close> for the local id \<open>L\<close>, and let the
  message at index \<open>j\<close> of a chat be the first one with the id \<open>L\<close>, no earlier message of
  the chat having the id \<open>K\<close>. Chats with another id are not modified. In a chat with the
  id of the send, the entry keeps its index and all its fields but two: the id becomes \<open>K\<close>
  and the status becomes \<open>delivered\<close>. Messages with another id are unchanged, the last
  message becomes the updated entry if it had the id \<open>L\<close> and is unchanged otherwise, and
  no other field of the chat changes.
\<close>

theorem C5_success_ack:
  assumes "confirmed_id ack = Some K"
    and "i < length (chats s)" and "j < length (messages (chats s ! i))"
    and "msg_id (messages (chats s ! i) ! j) = L"
    and "\<forall>k<j. msg_id (messages (chats s ! i) ! k) \<noteq> L \<and> msg_id (messages (chats s ! i) ! k) \<noteq> K"
  shows "(let c = chats s ! i;
              c' = chats (send_message_ack chatId L ack s) ! i;
              m = messages c ! j
          in length (chats (send_message_ack chatId L ack s)) = length (chats s)
             \<and> (chat_id c \<noteq> chatId \<longrightarrow> c' = c)
             \<and> (chat_id c = chatId \<longrightarrow>
                  length (messages c') = length (messages c)
                  \<and> messages c' ! j = m\<lparr>msg_id := K, status := Some Delivered\<rparr>
                  \<and> (\<forall>k<length (messages c). msg_id (messages c ! k) \<noteq> L \<longrightarrow>
                        messages c' ! k = messages c ! k)
                  \<and> lastMessage c' = (if last_is c L then Some (messages c' ! j) else lastMessage c)
                  \<and> c'\<lparr>messages := messages c, lastMessage := lastMessage c\<rparr> = c))"
proof -
  let ?c = "chats s ! i"
  have len: "length (chats (send_message_ack chatId L ack s)) = length (chats s)"
    using assms(1) by (simp add: chats_ack_confirm)
  have other: "chat_id ?c \<noteq> chatId \<Longrightarrow> chats (send_message_ack chatId L ack s) ! i = ?c"
    using assms(1,2) by (simp add: chats_ack_confirm)
  have same: "chat_id ?c = chatId \<Longrightarrow>
      chats (send_message_ack chatId L ack s) ! i = ack_confirm L K ?c"
    using assms(1,2) by (simp add: chats_ack_confirm)
  have last: "lastMessage (ack_confirm L K ?c)
      = (if last_is ?c L then Some (messages (ack_confirm L K ?c) ! j) else lastMessage ?c)"
    using lastMessage_ack_confirm_first [OF _ assms(3,4,5)]
      lastMessage_ack_confirm_other [of ?c L K]
    by (cases "last_is ?c L") (simp_all del: last_is.simps)
  have msgs: "length (messages (ack_confirm L K ?c)) = length (messages ?c)"
    "messages (ack_confirm L K ?c) ! j = (messages ?c ! j)\<lparr>msg_id := K, status := Some Delivered\<rparr>"
    "\<forall>k<length (messages ?c). msg_id (messages ?c ! k) \<noteq> L \<longrightarrow>
        messages (ack_confirm L K ?c) ! k = messages ?c ! k"
    using assms(3,4) by (simp_all add: messages_ack_confirm)
  show ?thesis
    unfolding Let_def
    using len other same last msgs ack_confirm_frame [where L = L and K = K and c = ?c]
    by (simp del: last_is.simps)
qed

theorem C5_success_ack_witness:
  "confirmed_id ok_ack = Some ''srv1''
   \<and> messages (chats sent_state ! 0) = [hi_message]
   \<and> msg_id hi_message = ''temp_1''
   \<and> messages (chats confirmed_state ! 0)
       = [hi_message\<lparr>msg_id := ''srv1'', status := Some Delivered\<rparr>]
   \<and> lastMessage (chats confirmed_state ! 0)
       = Some (hi_message\<lparr>msg_id := ''srv1'', status := Some Delivered\<rparr>)
   \<and> chats confirmed_state ! 1 = chats sent_state ! 1"
proof -
  have h: "confirmed_id ok_ack = Some ''srv1''" "0 < length (chats sent_state)"
    "0 < length (messages (chats sent_state ! 0))"
    "msg_id (messages (chats sent_state ! 0) ! 0) = ''temp_1''"
    "\<forall>k<0. msg_id (messages (chats sent_state ! 0) ! k) \<noteq> ''temp_1''
        \<and> msg_id (messages (chats sent_state ! 0) ! k) \<noteq> ''srv1''"
    by (simp_all add: confirmed_id_def ok_ack_def sent_state_chats chat_c1_def
        hi_message_def new_message_def)
  from C5_success_ack [OF h, of "''c1''"] h(1)
  show ?thesis
    by (simp add: Let_def confirmed_state_def [symmetric] confirmed_state_chats sent_state_chats
        hi_message_def new_message_def)
qed

section \<open>A direct chat arriving for a chat that is already there\<close>

text \<open>
  Claim C8, as stated, fails: nothing is merged. In the example session chat \<open>c1\<close> holds
  the message just sent under its temporary id; when \<open>direct_chat_started\<close> then brings a
  chat \<open>c1\<close> without messages, the chat in the store has no messages either.
\<close>

theorem C8_pending_dropped_counterexample:
  "map chat_id (chats sent_state) = [''c1'', ''c2'']
   \<and> map msg_id (messages (chats sent_state ! 0)) = [''temp_1'']
   \<and> messages chat_c1 = []
   \<and> map chat_id (chats (on_direct_chat_started chat_c1 sent_state)) = [''c1'', ''c2'']
   \<and> messages (chats (on_direct_chat_started chat_c1 sent_state) ! 0) = []"
  by (simp add: on_direct_chat_started_def put_first_def sent_state_chats chat_c1_def chat_c2_def
      hi_message_def new_message_def)

text \<open>
  Claim C8, amended. \<open>direct_chat_started\<close> puts the incoming chat, exactly as it arrived,
  at index 0 and selects it; it is then the only chat with its id, so an older entry with
  that id is replaced as a whole, its messages included, and local messages that the
  payload does not hold are dropped. The chats with other ids stay, in their order.
\<close>

theorem C8_direct_chat_replaces:
  "(let s' = on_direct_chat_started c s
    in chats s' ! 0 = c
       \<and> length (filter (\<lambda>d. chat_id d = chat_id c) (chats s')) = 1
       \<and> filter (\<lambda>d. chat_id d \<noteq> chat_id c) (chats s')
           = filter (\<lambda>d. chat_id d \<noteq> chat_id c) (chats s)
       \<and> selectedChatId s' = Some (chat_id c))"
  by (simp add: on_direct_chat_started_def Let_def put_first_hd put_first_once put_first_others)

theorem C8_direct_chat_replaces_witness:
  "chat_id (chats sent_state ! 0) = chat_id chat_c1
   \<and> messages (chats sent_state ! 0) = [hi_message]
   \<and> chats (on_direct_chat_started chat_c1 sent_state) ! 0 = chat_c1
   \<and> length (filter (\<lambda>d. chat_id d = chat_id chat_c1)
        (chats (on_direct_chat_started chat_c1 sent_state))) = 1"
  using C8_direct_chat_replaces [of chat_c1 sent_state]
  by (simp add: Let_def sent_state_chats)

section \<open>The listeners during a session\<close>


















lemma example_state_reached:
  "run alice [FromServer (InitialData example_data)] (mount alice) = example_state"
  by (simp add: deliver_def settle_def rerun_effect_def effect_cleanup_def effect_body_def
      deps_def mount_def first_render_def on_initial_data_def replace_user_def base_users_def
      online_flag_def listed_online_def example_data_def example_state_def Let_def
      alice_def bob_def chat_c1_def chat_c2_def)

lemma example_state_fields:
  "selectedChatId example_state = Some ''c2''" "listeners example_state = None"
  "view example_state = ChatsView" "chats example_state = [chat_c2, chat_c1]"
  "availableUsers example_state = [alice, bob]" "isLoadingData example_state"
  by (simp_all add: example_state_def)

section \<open>Broadcast and acknowledgement of the same message\<close>





lemma unheard: "listeners s = None \<Longrightarrow> deliver iu ev s = s"
  by (simp add: deliver_def)




section \<open>Messages for a chat that is not selected\<close>

text \<open>While the listeners are attached, that is before any chat has been selected, every
  message received for a chat of the list raises its unread count by one: a group chat
  that arrives before the initial data and then receives two messages has two unread
  messages.\<close>

lemma attached_messages_counted:
  "map unreadCount (chats (run alice
      [FromServer (GroupCreated chat_c3), FromServer (ReceiveMessage hello_message ''c3''),
       FromServer (ReceiveMessage there_message ''c3'')] (mount alice))) = [Some 2]"
  by (simp add: deliver_def settle_def deps_def mount_def first_render_def effect_body_def
      on_group_created_def on_receive_message_def append_received_def to_front_def Let_def
      alice_def chat_c3_def hello_message_def there_message_def new_message_def)

lemma quiet_state_eq:
  "quiet_state = example_state\<lparr>chats := [chat_c2, chat_c3], emitted := [RequestInitialData]\<rparr>"
  by (simp add: quiet_state_def deliver_def settle_def rerun_effect_def effect_cleanup_def
      effect_body_def deps_def mount_def first_render_def on_connect_def on_initial_data_def
      replace_user_def base_users_def online_flag_def listed_online_def quiet_data_def
      example_state_def Let_def alice_def bob_def chat_c2_def chat_c3_def)

text \<open>
  Claim C6 in a session. Alice logs in; the initial data bring the chats \<open>c2\<close> and \<open>c3\<close>,
  none with unread messages, and the handler selects \<open>c2\<close>. This selection makes the
  effect run again, which removes the listeners. Two messages then arrive for \<open>c3\<close>,
  which is not the selected chat: neither is handled, the state does not change, and
  \<open>c3\<close> still has no unread message and no message at all, where the claim says its
  unread count is 2. The list of chats is not shown either, the loading flag being set
  again; and selecting \<open>c3\<close> would send nothing, where the claim says one
  \<open>mark_as_read\<close>.
\<close>

theorem C6_unselected_messages_dropped:
  "selectedChatId quiet_state = Some ''c2''
   \<and> listeners quiet_state = None
   \<and> isLoadingData quiet_state
   \<and> map chat_id (chats quiet_state) = [''c2'', ''c3'']
   \<and> map unreadCount (chats quiet_state) = [None, None]
   \<and> two_received_state = quiet_state
   \<and> map unreadCount (chats two_received_state) = [None, None]
   \<and> map messages (chats two_received_state) = [[], []]
   \<and> emitted (step alice (Local (SelectChat ''c3'')) two_received_state) = emitted quiet_state"
proof -
  have q: "listeners quiet_state = None" by (simp add: quiet_state_eq example_state_def)
  have t: "two_received_state = quiet_state"
    by (simp add: two_received_state_def deliver_def q)
  have e: "emitted (step alice (Local (SelectChat ''c3'')) quiet_state) = emitted quiet_state"
    by (simp add: quiet_state_eq example_state_def handleSelectChat_def settle_def
        rerun_effect_def effect_cleanup_def effect_body_def deps_def Let_def
        alice_def chat_c2_def chat_c3_def)
  show ?thesis
    unfolding t using e
    by (simp add: quiet_state_eq example_state_def chat_c2_def chat_c3_def)
qed

section \<open>Losing the connection after the initial data\<close>

text \<open>While the listeners are attached, a disconnect that the client did not ask for puts
  the fallback user list in the place of the user list, and the initial data that follow
  show offline a user who has no entry in the snapshot: Bob, reported online before the
  initial data, is offline after the reconnect.\<close>

lemma attached_disconnect_handled:
  "map isOnline (availableUsers (run alice [FromServer (UserStatusUpdate ''user2'' True)]
      (mount alice))) = [False, True, False, False]
   \<and> availableUsers (run alice
        [FromServer (UserStatusUpdate ''user2'' True),
         FromServer (Disconnect ''transport close'')] (mount alice)) = initialAvailableUsers
   \<and> map isOnline (availableUsers (run alice
        [FromServer (UserStatusUpdate ''user2'' True),
         FromServer (Disconnect ''transport close''), FromServer Connect,
         FromServer (InitialData reconnect_data)] (mount alice))) = [True, False]"
  by (simp add: deliver_def settle_def rerun_effect_def effect_cleanup_def effect_body_def
      deps_def mount_def first_render_def on_connect_def on_disconnect_def
      on_user_status_update_def set_online_def on_initial_data_def
      replace_user_def base_users_def online_flag_def listed_online_def reconnect_data_def
      object_prototype_keys_def initialAvailableUsers_def Let_def alice_def bob_def)

text \<open>
  Claim C9 in the example session. The initial data show Alice and Bob online and leave
  the state \<open>example_state\<close>, without listeners: the handler has replaced the current
  user and selected a chat. The connection then drops: the \<open>disconnect\<close> event is not
  handled, the chats are still there and the user list is the one of the snapshot. On
  the reconnect neither \<open>connect\<close> nor \<open>initial_data\<close> is handled, so Bob, who has no
  entry in the new snapshot, is still shown online, where the claim says the chats and
  the user list are cleared and Bob is offline.
\<close>

theorem C9_disconnect_not_handled:
  "run alice [FromServer (InitialData example_data)] (mount alice) = example_state
   \<and> map user_id (availableUsers example_state) = [''user1'', ''user2'']
   \<and> map isOnline (availableUsers example_state) = [True, True]
   \<and> listeners example_state = None
   \<and> dropped_state = example_state
   \<and> map chat_id (chats dropped_state) = [''c2'', ''c1'']
   \<and> d_onlineUsers reconnect_data ''user2'' = None
   \<and> reconnected_state = example_state
   \<and> map isOnline (availableUsers reconnected_state) = [True, True]"
proof -
  have d: "dropped_state = example_state"
    by (simp add: dropped_state_def deliver_def example_state_fields)
  have r: "reconnected_state = example_state"
    by (simp add: reconnected_state_def d deliver_def example_state_fields)
  have f: "map user_id (availableUsers example_state) = [''user1'', ''user2'']"
    "map isOnline (availableUsers example_state) = [True, True]"
    "map chat_id (chats example_state) = [''c2'', ''c1'']"
    "d_onlineUsers reconnect_data ''user2'' = None"
    by (simp_all add: example_state_fields reconnect_data_def alice_def bob_def
        chat_c1_def chat_c2_def)
  show ?thesis
    unfolding d r using example_state_reached example_state_fields(2) f by blast
qed

end
